theory Spec2Isabelle
  imports Main
begin

section \<open>Strings and paths\<close>

text \<open>
  The program is the single module \<^verbatim>\<open>main.py\<close>: a PyQt6 window (\<^verbatim>\<open>TranscriberApp\<close>),
  a settings dialog (\<^verbatim>\<open>SettingsDialog\<close>) and a worker thread (\<^verbatim>\<open>RecordingThread\<close>).
  Python strings are modelled as \<open>string\<close>; a character stands for one code point below 256.
\<close>

type_synonym path = string

definition nl :: char where
  "nl = CHR 0x0A"

text \<open>\<^verbatim>\<open>str(n)\<close> for a non-negative integer, as used by the f-strings of the program.\<close>

definition digit_char :: "nat \<Rightarrow> char" where
  "digit_char d = ''0123456789'' ! d"

fun str_nat :: "nat \<Rightarrow> string" where
  "str_nat n = (if n < 10 then [digit_char n] else str_nat (n div 10) @ [digit_char (n mod 10)])"

declare str_nat.simps [simp del]

text \<open>
  \<^verbatim>\<open>str.isspace\<close> on one character and \<^verbatim>\<open>str.strip()\<close>: the white space of Python's
  \<^verbatim>\<open>str\<close> type among the code points below 256.
\<close>

definition is_space :: "char \<Rightarrow> bool" where
  "is_space c \<longleftrightarrow> c \<in> set [CHR 0x09, CHR 0x0A, CHR 0x0B, CHR 0x0C, CHR 0x0D,
                           CHR 0x1C, CHR 0x1D, CHR 0x1E, CHR 0x1F, CHR 0x20, CHR 0x85, CHR 0xA0]"

definition strip :: "string \<Rightarrow> string" where
  "strip s = rev (dropWhile is_space (rev (dropWhile is_space s)))"

text \<open>
  \<^verbatim>\<open>str.startswith\<close> and \<^verbatim>\<open>str.replace(old, new)\<close> for a non-empty \<open>old\<close>: the
  occurrences are found from the left and do not overlap.
\<close>

fun startswith :: "string \<Rightarrow> string \<Rightarrow> bool" where
  "startswith s [] = True"
| "startswith [] (p # ps) = False"
| "startswith (c # cs) (p # ps) = (c = p \<and> startswith cs ps)"

fun replace :: "string \<Rightarrow> string \<Rightarrow> string \<Rightarrow> string" where
  "replace old new [] = []"
| "replace old new (c # cs) =
     (if old \<noteq> [] \<and> startswith (c # cs) old
      then new @ replace old new (drop (length old) (c # cs))
      else c # replace old new cs)"

text \<open>\<^verbatim>\<open>os.path.join(a, b)\<close> of \<^verbatim>\<open>posixpath\<close> for two components.\<close>

definition path_join :: "path \<Rightarrow> path \<Rightarrow> path" where
  "path_join a b =
     (if startswith b ''/'' then b
      else if a = [] \<or> last a = CHR ''/'' then a @ b
      else a @ ''/'' @ b)"

text \<open>
  The module-level function \<^verbatim>\<open>cleanup_prompt(transcript="")\<close> (lines 22 to 61): an
  f-string whose only field, \<^verbatim>\<open>{transcript}\<close>, ends it. \<open>prompt_lines\<close> are the lines of
  the literal before the field, the last one being the indentation in front of it.
\<close>

definition prompt_lines :: "string list" where
  \<open>prompt_lines =
    [''Clean up a transcript to enhance readability and coherence.'',
     '''',
     ''    Focus on removing filler words, correcting grammatical errors, and maintaining the original meaning while ensuring the text flows smoothly.'',
     '''',
     ''    # Steps'',
     '''',
     ''    1. **Remove Filler Words:** Identify common filler words such as "um," "uh," "like," and "you know," and remove them from the transcript.'',
     ''    '',
     ''    2. **Correct Grammatical Errors:** Identify and fix any grammatical errors, such as subject-verb agreement and punctuation mistakes.'',
     '''',
     ''    3. **Enhance Readability:** Restructure sentences where needed to improve clarity and coherence, ensuring the text flows logically from one point to the next.'',
     '''',
     ''    4. **Preserve Core Meaning:** While editing, make sure to maintain the original meaning and intent of the transcript.'',
     '''',
     ''    5. Maintain the original tone of voice and perspective.'',
     '''',
     ''    6. Suggest improvements to the transcript.'',
     '''',
     ''  7. Apply suggested improvements in a finalised edited version'',
     '''',
     '''',
     ''    # Notes'',
     '''',
     ''    - Avoid removing any essential information that could alter the meaning of the transcript.'',
     ''    - Pay attention to the context to ensure continuity and coherence in the conversation.'',
     '''',
     ''    # Example output'',
     '''',
     ''    %CLEANED UP'',
     ''   [Provide a clean, edited transcript, formatted as a coherent paragraph or series of paragraphs. Use section headings as appropriate to separate to clarify meaning]'',
     '''',
     ''    %SUGGESTIONS FOR IMPROVEMENT'',
     ''    [Critique the transcript and suggest improvements]'',
     '''',
     ''    %SUGGESTED FINAL'',
     ''[review suggested improvements and apply into this edited version]'',
     '''',
     ''    Transcript:'',
     ''    '']\<close>

fun join_lines :: "string list \<Rightarrow> string" where
  "join_lines [] = []"
| "join_lines [l] = l"
| "join_lines (l # ls) = l @ [nl] @ join_lines ls"

definition cleanup_prompt :: "string \<Rightarrow> string" where
  "cleanup_prompt transcript = join_lines prompt_lines @ transcript"

section \<open>Data model\<close>

text \<open>
  A realtime transcript delivered by the speech service is either final or partial;
  \<^verbatim>\<open>handle_transcript\<close> tells them apart with \<^verbatim>\<open>isinstance\<close>.
\<close>

datatype transcript =
    RealtimeFinalTranscript string
  | RealtimePartialTranscript string

fun transcript_text :: "transcript \<Rightarrow> string" where
  "transcript_text (RealtimeFinalTranscript t) = t"
| "transcript_text (RealtimePartialTranscript t) = t"

text \<open>The signals of \<^verbatim>\<open>RecordingThread\<close>; \<open>finished\<close> is the one every \<^verbatim>\<open>QThread\<close> has.\<close>

datatype signal =
    transcript_received transcript
  | error_occurred string
  | recording_stopped
  | finished

text \<open>Keyword arguments handed to a constructor of the speech library.\<close>

datatype arg = ArgInt int | ArgStr string | ArgBool bool | ArgCallback string

type_synonym kwargs = "(string \<times> arg) list"

text \<open>
  Everything the program does to the outside world, other than to files, is recorded
  in a trace, in the order in which it happens.
\<close>

datatype effect =
    Print string
  | Emit signal
  | SetSpeechApiKey string
  | CreateRealtimeTranscriber kwargs
  | Connect
  | CreateMicrophoneStream kwargs
  | Stream
  | CloseTranscriber
  | CloseMicrophone
  | StartThread string
  | TerminateThread
  | DeleteLater
  | Makedirs path
  | ConfigureLLM string
  | GenerateContent string string
  | ExtractAudio path path
  | Transcribe path kwargs
  | RemoveFile path
  | MessageBox string string

text \<open>The value of the attribute \<^verbatim>\<open>self.cleanup_prompt\<close>: a string, or (line 453) the
  module-level function \<^verbatim>\<open>cleanup_prompt\<close> itself.\<close>

datatype prompt_attr = PromptText string | PromptFunction

text \<open>The attributes of a \<^verbatim>\<open>RecordingThread\<close> object.\<close>

record RecordingThread =
  api_key :: string
  is_recording :: bool
  transcriber :: bool
  microphone_stream :: bool
  transcriber_config :: "kwargs option"

text \<open>
  The fields \<open>transcriber\<close> and \<open>microphone_stream\<close> say whether the attribute holds an
  object (\<open>True\<close>) or \<^verbatim>\<open>None\<close>. \<open>transcriber_config\<close> is \<open>None\<close> until the controller
  assigns the attribute.

  The settings file is a JSON object; \<open>None\<close> is an absent key.
\<close>

record settings_json =
  ASSEMBLY_API_KEY :: "string option"
  GOOGLE_API_KEY :: "string option"
  OUTPUT_DIR :: "string option"
  CLEANUP_PROMPT :: "string option"
  GEMINI_MODEL :: "string option"
  CUSTOM_VOCABULARY :: "string list option"

datatype config_file = NoFile | Unreadable string | Json settings_json

text \<open>
  The state of the main window: its attributes, the widgets the code reads and writes
  (style sheets are left out, nothing depends on them), the files, and the trace.
  \<open>status_bar\<close> lists every message shown, latest last; \<open>transcript_display\<close> and
  \<open>debug_display\<close> list the appended blocks. \<open>gemini_model\<close>, \<open>vocab_entry\<close> and
  \<open>debug_display\<close> are \<open>None\<close> while the attribute does not exist.
\<close>

record TranscriberApp =
  assembly_api_key :: string
  gemini_api_key :: string
  output_dir :: path
  cleanup_prompt_attr :: prompt_attr
  gemini_model :: "string option"
  recording_thread :: "RecordingThread option"
  current_output_file :: "path option"
  name_entry :: string
  vocab_entry :: "string option"
  language_combo :: string
  multiple_speakers_cb :: bool
  record_button_text :: string
  record_button_enabled :: bool
  upload_button_enabled :: bool
  summarize_button_enabled :: bool
  status_bar :: "string list"
  transcript_display :: "string list"
  debug_display :: "string list option"
  files :: "path \<rightharpoonup> string"
  config :: config_file
  trace :: "effect list"

text \<open>
  What the environment decides during one handler: the clock, the outcome of library
  calls that may raise (\<open>Some msg\<close> is the exception's message), the worker thread's
  progress as seen through \<^verbatim>\<open>isRunning\<close> and \<^verbatim>\<open>wait(5000)\<close>, the file dialog, and the
  two services. \<open>stream_callbacks\<close> are the calls the speech library makes to the
  thread's callbacks while \<^verbatim>\<open>stream\<close> runs, each \<open>on_data\<close> with what
  \<^verbatim>\<open>transcript_received.emit\<close> does there.
\<close>

datatype emit_outcome = Emitted | EmitRuntimeError | EmitError string

datatype callback = on_data transcript emit_outcome | on_error string

record batch_transcript =
  utterances :: "(string \<times> string) list option"
  full_text :: "string option"

record env =
  now_hms :: string
  now_stamp :: string
  makedirs_error :: "string option"
  is_running :: bool
  wait_result :: bool
  connect_error :: "string option"
  microphone_error :: "string option"
  stream_callbacks :: "callback list"
  stream_error :: "string option"
  transcriber_close_error :: "string option"
  microphone_close_error :: "string option"
  generate_content :: "string \<Rightarrow> string \<Rightarrow> string + string"
  selected_file :: path
  extract_audio_error :: "string option"
  remove_error :: "string option"
  home_dir :: path
  config_path :: path
  config_write_error :: "string option"
  transcribe :: "path \<Rightarrow> kwargs \<Rightarrow> string + batch_transcript"

section \<open>The controller\<close>

definition print :: "string \<Rightarrow> TranscriberApp \<Rightarrow> TranscriberApp" where
  "print msg s = s\<lparr>trace := trace s @ [Print msg]\<rparr>"

definition showMessage :: "string \<Rightarrow> TranscriberApp \<Rightarrow> TranscriberApp" where
  "showMessage msg s = s\<lparr>status_bar := status_bar s @ [msg]\<rparr>"

definition log_debug :: "env \<Rightarrow> string \<Rightarrow> TranscriberApp \<Rightarrow> TranscriberApp" where
  "log_debug e message s =
     (let s1 = print (''DEBUG: '' @ message) s
      in case debug_display s1 of
           Some d \<Rightarrow> s1\<lparr>debug_display := Some (d @ [''['' @ now_hms e @ ''] '' @ message])\<rparr>
         | None \<Rightarrow> s1)"

text \<open>\<^verbatim>\<open>open(path, "a")\<close> followed by one \<^verbatim>\<open>write\<close>, and \<^verbatim>\<open>open(path, "w")\<close> likewise.\<close>

definition append_file :: "path \<Rightarrow> string \<Rightarrow> TranscriberApp \<Rightarrow> TranscriberApp" where
  "append_file p txt s =
     s\<lparr>files := (files s)(p \<mapsto> (case files s p of None \<Rightarrow> [] | Some c \<Rightarrow> c) @ txt)\<rparr>"

definition write_file :: "path \<Rightarrow> string \<Rightarrow> TranscriberApp \<Rightarrow> TranscriberApp" where
  "write_file p txt s = s\<lparr>files := (files s)(p \<mapsto> txt)\<rparr>"

text \<open>
  \<^verbatim>\<open>handle_transcript\<close> (lines 754 to 768). The result is \<open>Inl\<close> when the slot raises:
  \<^verbatim>\<open>open(None, "a")\<close> is a \<^verbatim>\<open>TypeError\<close>.
\<close>

definition handle_transcript :: "env \<Rightarrow> transcript \<Rightarrow> TranscriberApp \<Rightarrow> string + TranscriberApp" where
  "handle_transcript e tr s =
     (if transcript_text tr = [] then Inr s
      else case tr of
        RealtimeFinalTranscript t \<Rightarrow>
          (let txt = t @ [nl]
           in case current_output_file s of
                None \<Rightarrow> Inl ''expected str, bytes or os.PathLike object, not NoneType''
              | Some p \<Rightarrow>
                  (let s1 = append_file p txt s;
                       s2 = s1\<lparr>transcript_display := transcript_display s1 @ [txt]\<rparr>
                   in Inr (log_debug e (''Saved transcript: '' @ str_nat (length txt) @ '' chars'') s2)))
      | RealtimePartialTranscript t \<Rightarrow> Inr (print t s))"

text \<open>
  The transcripts of a session, delivered to the slot one after the other, each with
  the environment of its delivery.
\<close>

fun handle_transcripts ::
  "(env \<times> transcript) list \<Rightarrow> TranscriberApp \<Rightarrow> string + TranscriberApp" where
  "handle_transcripts [] s = Inr s"
| "handle_transcripts ((e, tr) # trs) s =
     (case handle_transcript e tr s of
        Inl err \<Rightarrow> Inl err
      | Inr s' \<Rightarrow> handle_transcripts trs s')"

text \<open>The content of a file, empty when the file does not exist.\<close>

definition content :: "TranscriberApp \<Rightarrow> path \<Rightarrow> string" where
  "content s p = (case files s p of None \<Rightarrow> [] | Some c \<Rightarrow> c)"

text \<open>What the claims of the specification call the persisted lines of an event list.\<close>

fun final_lines :: "transcript list \<Rightarrow> string" where
  "final_lines [] = []"
| "final_lines (RealtimeFinalTranscript t # trs) = t @ [nl] @ final_lines trs"
| "final_lines (RealtimePartialTranscript t # trs) = final_lines trs"

fun nonempty_final_lines :: "transcript list \<Rightarrow> string" where
  "nonempty_final_lines [] = []"
| "nonempty_final_lines (RealtimeFinalTranscript t # trs) =
     (if t = [] then [] else t @ [nl]) @ nonempty_final_lines trs"
| "nonempty_final_lines (RealtimePartialTranscript t # trs) = nonempty_final_lines trs"

section \<open>The worker thread\<close>

text \<open>
  The methods of \<^verbatim>\<open>RecordingThread\<close> return the object's new attributes and the effects
  in order. \<open>CloseTranscriber\<close> and \<open>CloseMicrophone\<close> are recorded when the
  \<^verbatim>\<open>close()\<close> call returns; a \<^verbatim>\<open>close()\<close> that raises releases nothing.
\<close>

definition new_RecordingThread :: "string \<Rightarrow> RecordingThread" where
  "new_RecordingThread key =
     \<lparr>api_key = key, is_recording = False, transcriber = False, microphone_stream = False,
      transcriber_config = None\<rparr>"

text \<open>
  \<^verbatim>\<open>cleanup\<close> (lines 368 to 389): one \<^verbatim>\<open>try\<close> around both \<^verbatim>\<open>close()\<close> calls and the
  \<^verbatim>\<open>recording_stopped\<close> signal, one handler that emits \<^verbatim>\<open>error_occurred\<close>.
\<close>

definition cleanup_failed :: "string \<Rightarrow> effect list" where
  "cleanup_failed msg = [Print (''Error during cleanup: '' @ msg), Emit (error_occurred msg)]"

definition cleanup :: "env \<Rightarrow> RecordingThread \<Rightarrow> RecordingThread \<times> effect list" where
  "cleanup e t =
     (let fx0 = [Print ''Starting cleanup...''];
          t0 = t\<lparr>is_recording := False\<rparr>
      in if transcriber t0 \<and> transcriber_close_error e \<noteq> None
         then (t0, fx0 @ [Print ''Closing transcriber...'']
                     @ cleanup_failed (the (transcriber_close_error e)))
         else
           (let fx1 = (if transcriber t0
                       then fx0 @ [Print ''Closing transcriber...'', CloseTranscriber] else fx0);
                t1 = t0\<lparr>transcriber := False\<rparr>
            in if microphone_stream t1 \<and> microphone_close_error e \<noteq> None
               then (t1, fx1 @ [Print ''Closing microphone stream...'']
                           @ cleanup_failed (the (microphone_close_error e)))
               else
                 (let fx2 = (if microphone_stream t1
                             then fx1 @ [Print ''Closing microphone stream...'', CloseMicrophone]
                             else fx1);
                      t2 = t1\<lparr>microphone_stream := False\<rparr>
                  in (t2, fx2 @ [Print ''Cleanup complete'', Emit recording_stopped]))))"

text \<open>
  \<^verbatim>\<open>requestStop\<close> (lines 391 to 396) has no handler: the third component is the
  message of the exception that leaves it, if any.
\<close>

definition requestStop ::
  "env \<Rightarrow> RecordingThread \<Rightarrow> RecordingThread \<times> effect list \<times> string option" where
  "requestStop e t =
     (let t0 = t\<lparr>is_recording := False\<rparr>
      in if transcriber t0
         then (case transcriber_close_error e of
                 Some msg \<Rightarrow> (t0, [Print ''Stop requested''], Some msg)
               | None \<Rightarrow> (t0, [Print ''Stop requested'', CloseTranscriber], None))
         else (t0, [Print ''Stop requested''], None))"

text \<open>The callbacks \<^verbatim>\<open>_on_data\<close> (lines 351 to 361) and \<^verbatim>\<open>_on_error\<close> (lines 363 to 366).\<close>

fun run_callback :: "callback \<Rightarrow> effect list" where
  "run_callback (on_data tr Emitted) =
     [Print (''Received transcript: '' @ transcript_text tr), Emit (transcript_received tr)]"
| "run_callback (on_data tr EmitRuntimeError) =
     [Print (''Received transcript: '' @ transcript_text tr)]"
| "run_callback (on_data tr (EmitError msg)) =
     [Print (''Received transcript: '' @ transcript_text tr),
      Print (''Error in _on_data: '' @ msg), Emit (error_occurred msg)]"
| "run_callback (on_error err) =
     [Print (''Transcription error: '' @ err), Emit (error_occurred err)]"

text \<open>The keyword arguments of the two constructor calls in \<^verbatim>\<open>run\<close> (lines 323 to 336).\<close>

definition transcriber_kwargs :: kwargs where
  "transcriber_kwargs =
     [(''on_data'', ArgCallback ''_on_data''), (''on_error'', ArgCallback ''_on_error''),
      (''sample_rate'', ArgInt 44100), (''end_utterance_silence_threshold'', ArgInt 700)]"

definition microphone_kwargs :: kwargs where
  "microphone_kwargs = [(''sample_rate'', ArgInt 44100)]"

text \<open>
  \<^verbatim>\<open>run\<close> (lines 314 to 349). \<open>run_body\<close> is the \<^verbatim>\<open>try\<close> block, with the message of the
  exception that ends it; \<open>run\<close> adds the handler and the \<^verbatim>\<open>finally\<close> clause. The
  traceback goes to the error stream and is not recorded.
\<close>

definition run_body ::
  "env \<Rightarrow> RecordingThread \<Rightarrow> RecordingThread \<times> effect list \<times> string option" where
  "run_body e t =
     (let fx1 = [Print ''Setting up AssemblyAI...'', SetSpeechApiKey (api_key t),
                 Print ''Creating transcriber...'', CreateRealtimeTranscriber transcriber_kwargs,
                 Print ''Connecting to AssemblyAI...''];
          t1 = t\<lparr>transcriber := True\<rparr>
      in case connect_error e of
           Some msg \<Rightarrow> (t1, fx1, Some msg)
         | None \<Rightarrow>
             (let fx2 = fx1 @ [Connect, Print ''Initializing microphone...'']
              in case microphone_error e of
                   Some msg \<Rightarrow> (t1, fx2, Some msg)
                 | None \<Rightarrow>
                     (let fx3 = fx2 @ [CreateMicrophoneStream microphone_kwargs,
                                       Print ''Starting audio stream...'', Stream]
                                    @ concat (map run_callback (stream_callbacks e));
                          t3 = t1\<lparr>microphone_stream := True, is_recording := True\<rparr>
                      in (t3, fx3, stream_error e))))"

definition run :: "env \<Rightarrow> RecordingThread \<Rightarrow> RecordingThread \<times> effect list" where
  "run e t =
     (case run_body e t of
        (t1, fx1, exc) \<Rightarrow>
          (let fx2 = (case exc of
                        None \<Rightarrow> fx1
                      | Some msg \<Rightarrow> fx1 @ [Print (''Error in recording thread: '' @ msg),
                                            Emit (error_occurred msg)])
           in case cleanup e t1 of
                (t2, fx3) \<Rightarrow>
                  (t2, [Print ''RecordingThread.run() started''] @ fx2
                       @ [Print ''RecordingThread.run() ending''] @ fx3)))"

text \<open>The signals in a trace, in the order of emission.\<close>

fun emitted :: "effect list \<Rightarrow> signal list" where
  "emitted [] = []"
| "emitted (Emit sg # fx) = sg # emitted fx"
| "emitted (_ # fx) = emitted fx"

section \<open>Recording\<close>

text \<open>\<^verbatim>\<open>str.lower()\<close> on the code points below 256.\<close>

definition upper_chars :: string where
  "upper_chars = ''ABCDEFGHIJKLMNOPQRSTUVWXYZ'' @
       [CHR 0xC0, CHR 0xC1, CHR 0xC2, CHR 0xC3, CHR 0xC4, CHR 0xC5, CHR 0xC6, CHR 0xC7,
        CHR 0xC8, CHR 0xC9, CHR 0xCA, CHR 0xCB, CHR 0xCC, CHR 0xCD, CHR 0xCE, CHR 0xCF,
        CHR 0xD0, CHR 0xD1, CHR 0xD2, CHR 0xD3, CHR 0xD4, CHR 0xD5, CHR 0xD6, CHR 0xD8,
        CHR 0xD9, CHR 0xDA, CHR 0xDB, CHR 0xDC, CHR 0xDD, CHR 0xDE]"

definition lower_chars :: string where
  "lower_chars = ''abcdefghijklmnopqrstuvwxyz'' @
       [CHR 0xE0, CHR 0xE1, CHR 0xE2, CHR 0xE3, CHR 0xE4, CHR 0xE5, CHR 0xE6, CHR 0xE7,
        CHR 0xE8, CHR 0xE9, CHR 0xEA, CHR 0xEB, CHR 0xEC, CHR 0xED, CHR 0xEE, CHR 0xEF,
        CHR 0xF0, CHR 0xF1, CHR 0xF2, CHR 0xF3, CHR 0xF4, CHR 0xF5, CHR 0xF6, CHR 0xF8,
        CHR 0xF9, CHR 0xFA, CHR 0xFB, CHR 0xFC, CHR 0xFD, CHR 0xFE]"

definition lower_char :: "char \<Rightarrow> char" where
  "lower_char c = (case map_of (zip upper_chars lower_chars) c of Some l \<Rightarrow> l | None \<Rightarrow> c)"

definition lower :: "string \<Rightarrow> string" where
  "lower s = map lower_char s"

definition validate_api_keys :: "TranscriberApp \<Rightarrow> bool" where
  "validate_api_keys s \<longleftrightarrow> assembly_api_key s \<noteq> [] \<and> gemini_api_key s \<noteq> []"

text \<open>\<^verbatim>\<open>update_ui_recording_stopped\<close> (lines 770 to 791), the terminal notification.\<close>

definition update_ui_recording_stopped :: "TranscriberApp \<Rightarrow> TranscriberApp" where
  "update_ui_recording_stopped s =
     showMessage ''Recording stopped''
       (s\<lparr>record_button_enabled := True,
          record_button_text := ''Start Recording'',
          upload_button_enabled := True,
          summarize_button_enabled := True\<rparr>)"

text \<open>
  \<^verbatim>\<open>start_recording\<close> (lines 657 to 726). The only statement of the \<^verbatim>\<open>try\<close> block
  that the environment can make raise is \<^verbatim>\<open>os.makedirs\<close>. The signal connections of
  lines 711 to 714 are the function \<open>deliver\<close> below.
\<close>

definition start_recording :: "env \<Rightarrow> TranscriberApp \<Rightarrow> TranscriberApp" where
  "start_recording e s =
     (let s1 = log_debug e ''Starting recording...''
                 (print ([nl] @ ''=== Starting Recording ==='') s)
      in if \<not> validate_api_keys s1 then s1
         else
           (let s2 = showMessage ''Initializing recording...''
                       (s1\<lparr>record_button_text := ''Stop Recording'',
                           upload_button_enabled := False,
                           summarize_button_enabled := False\<rparr>);
                session_name = (if strip (name_entry s2) = [] then now_stamp e
                                else strip (name_entry s2));
                session_dir = path_join (output_dir s2) session_name
            in case makedirs_error e of
                 Some msg \<Rightarrow>
                   update_ui_recording_stopped
                     (showMessage (''Error: '' @ msg)
                       (log_debug e (''Error starting recording: '' @ msg)
                         (print (''Error starting recording: '' @ msg) s2)))
               | None \<Rightarrow>
                   (let output_file = path_join session_dir ''transcript.txt'';
                        thread = (new_RecordingThread (assembly_api_key s2))
                                   \<lparr>transcriber_config :=
                                      Some [(''speaker_labels'', ArgBool (multiple_speakers_cb s2)),
                                            (''language_code'', ArgStr (lower (language_combo s2)))]\<rparr>
                    in s2\<lparr>recording_thread := Some thread,
                          current_output_file := Some output_file,
                          trace := trace s2 @ [Makedirs session_dir,
                                               Print ''RecordingThread initialized'',
                                               StartThread (api_key thread)]\<rparr>)))"

text \<open>\<^verbatim>\<open>stop_recording\<close> (lines 728 to 752).\<close>

definition stop_recording :: "env \<Rightarrow> TranscriberApp \<Rightarrow> TranscriberApp" where
  "stop_recording e s =
     (let s1 = log_debug e ''Stopping recording...''
                 (showMessage ''Stopping recording (this may take a few seconds)...''
                   (s\<lparr>record_button_enabled := False, record_button_text := ''Please wait...''\<rparr>));
          s2 = (case recording_thread s1 of
                  None \<Rightarrow> s1
                | Some t \<Rightarrow>
                    if \<not> is_running e then s1
                    else
                      (case requestStop e t of
                         (t', fx, exc) \<Rightarrow>
                           (let s' = s1\<lparr>recording_thread := Some t', trace := trace s1 @ fx\<rparr>
                            in case exc of
                                 Some msg \<Rightarrow>
                                   showMessage (''Error: '' @ msg)
                                     (log_debug e (''Error stopping recording: '' @ msg) s')
                               | None \<Rightarrow>
                                   if \<not> wait_result e
                                   then (let s'' = log_debug e ''Force stopping thread...'' s'
                                         in s''\<lparr>trace := trace s'' @ [TerminateThread]\<rparr>)
                                   else s')))
      in update_ui_recording_stopped s2)"


text \<open>\<^verbatim>\<open>handle_thread_finished\<close> (lines 793 to 799) and \<^verbatim>\<open>handle_recording_error\<close>
  (lines 801 to 805).\<close>

definition handle_thread_finished :: "env \<Rightarrow> TranscriberApp \<Rightarrow> TranscriberApp" where
  "handle_thread_finished e s =
     (let s1 = log_debug e ''Recording thread finished'' s;
          s2 = (case recording_thread s1 of
                  None \<Rightarrow> s1
                | Some t \<Rightarrow> s1\<lparr>recording_thread := None, trace := trace s1 @ [DeleteLater]\<rparr>)
      in update_ui_recording_stopped s2)"

definition handle_recording_error :: "env \<Rightarrow> string \<Rightarrow> TranscriberApp \<Rightarrow> TranscriberApp" where
  "handle_recording_error e error_msg s =
     stop_recording e
       (showMessage (''Error: '' @ error_msg)
         (log_debug e (''Recording error: '' @ error_msg) s))"

text \<open>
  The connections made in \<^verbatim>\<open>start_recording\<close> (lines 711 to 714): the slot that each
  signal of the thread runs in the controller.
\<close>

fun deliver :: "env \<Rightarrow> signal \<Rightarrow> TranscriberApp \<Rightarrow> string + TranscriberApp" where
  "deliver e (transcript_received tr) s = handle_transcript e tr s"
| "deliver e (error_occurred msg) s = Inr (handle_recording_error e msg s)"
| "deliver e recording_stopped s = Inr (update_ui_recording_stopped s)"
| "deliver e finished s = Inr (handle_thread_finished e s)"

fun deliver_all :: "(env \<times> signal) list \<Rightarrow> TranscriberApp \<Rightarrow> string + TranscriberApp" where
  "deliver_all [] s = Inr s"
| "deliver_all ((e, sg) # sgs) s =
     (case deliver e sg s of
        Inl err \<Rightarrow> Inl err
      | Inr s' \<Rightarrow> deliver_all sgs s')"

text \<open>How often the terminal notification has been given.\<close>

definition stopped_count :: "TranscriberApp \<Rightarrow> nat" where
  "stopped_count s = length (filter (\<lambda>m. m = ''Recording stopped'') (status_bar s))"

section \<open>Summary\<close>

text \<open>The message of an \<^verbatim>\<open>AttributeError\<close>.\<close>

definition no_attribute :: "string \<Rightarrow> string \<Rightarrow> string" where
  "no_attribute cls attr =
     [CHR 0x27] @ cls @ [CHR 0x27] @ '' object has no attribute '' @ [CHR 0x27] @ attr @ [CHR 0x27]"

text \<open>
  \<^verbatim>\<open>create_summary\<close> (lines 807 to 851). \<open>create_summary_body\<close> is the \<^verbatim>\<open>try\<close> block:
  \<open>Inl\<close> carries the state reached and the message of the exception raised there.
  The prompt is built by the module-level function \<^verbatim>\<open>cleanup_prompt\<close> (line 828); the
  attribute \<^verbatim>\<open>self.cleanup_prompt\<close> is not read.
\<close>

definition separator :: string where
  "separator = [nl] @ replicate 50 CHR ''='' @ [nl]"

definition summary_file_of :: "path \<Rightarrow> path" where
  "summary_file_of output_file = replace ''.txt'' ''_summary.txt'' output_file"

definition create_summary_body ::
  "env \<Rightarrow> TranscriberApp \<Rightarrow> (TranscriberApp \<times> string) + TranscriberApp" where
  "create_summary_body e s =
     (case current_output_file s of
        None \<Rightarrow> Inl (s, ''No transcription file available'')
      | Some output_file \<Rightarrow>
          if output_file = [] \<or> files s output_file = None
          then Inl (s, ''No transcription file available'')
          else
            (let transcript = the (files s output_file)
             in if strip transcript = [] then Inl (s, ''Transcription file is empty'')
                else
                  (let s1 = s\<lparr>trace := trace s @ [ConfigureLLM (gemini_api_key s)]\<rparr>
                   in case gemini_model s1 of
                        None \<Rightarrow> Inl (s1, no_attribute ''TranscriberApp'' ''gemini_model'')
                      | Some model \<Rightarrow>
                          (let prompt = cleanup_prompt transcript;
                               s2 = s1\<lparr>trace := trace s1 @ [GenerateContent model prompt]\<rparr>
                           in case generate_content e model prompt of
                                Inl msg \<Rightarrow> Inl (s2, msg)
                              | Inr summary \<Rightarrow>
                                  (let s3 = s2\<lparr>transcript_display :=
                                                 transcript_display s2
                                                 @ [separator, ''SUMMARY:'' @ [nl], summary,
                                                    separator]\<rparr>;
                                       summary_file = summary_file_of output_file;
                                       s4 = write_file summary_file summary s3
                                   in Inr (showMessage ''Summary created successfully''
                                            (log_debug e (''Summary saved to: '' @ summary_file)
                                               s4)))))))"

definition create_summary :: "env \<Rightarrow> TranscriberApp \<Rightarrow> TranscriberApp" where
  "create_summary e s =
     (let s0 = showMessage ''Creating summary...'' (log_debug e ''Creating summary...'' s)
      in case create_summary_body e s0 of
           Inr s' \<Rightarrow> s'
         | Inl (s', msg) \<Rightarrow>
             (let error_msg = ''Error creating summary: '' @ msg
              in showMessage error_msg (log_debug e error_msg s')))"

text \<open>The prompts handed to the text-generation service, in order.\<close>

fun submitted_prompts :: "effect list \<Rightarrow> string list" where
  "submitted_prompts [] = []"
| "submitted_prompts (GenerateContent model prompt # fx) = prompt # submitted_prompts fx"
| "submitted_prompts (_ # fx) = submitted_prompts fx"

section \<open>Upload\<close>

text \<open>
  \<^verbatim>\<open>os.path.basename\<close> and \<^verbatim>\<open>os.path.splitext\<close> of \<^verbatim>\<open>posixpath\<close>: the extension starts
  at the last dot of the last component, unless only dots precede it there.
\<close>

definition basename :: "path \<Rightarrow> path" where
  "basename p = rev (takeWhile (\<lambda>c. c \<noteq> CHR ''/'') (rev p))"

definition splitext :: "path \<Rightarrow> path \<times> string" where
  "splitext p =
     (let b = basename p;
          ext = rev (takeWhile (\<lambda>c. c \<noteq> CHR ''.'') (rev b));
          root_b = take (length b - length ext - 1) b
      in if CHR ''.'' \<notin> set b \<or> (\<forall>c \<in> set root_b. c = CHR ''.'') then (p, [])
         else (take (length p - length ext - 1) p, CHR ''.'' # ext))"

text \<open>\<^verbatim>\<open>selected_language.split('(')[-1].strip(')')\<close> (line 1014).\<close>

definition language_code_of :: "string \<Rightarrow> string" where
  "language_code_of selected_language =
     (let last_part = rev (takeWhile (\<lambda>c. c \<noteq> CHR ''('') (rev selected_language))
      in rev (dropWhile (\<lambda>c. c = CHR '')'') (rev (dropWhile (\<lambda>c. c = CHR '')'') last_part))))"

definition video_extensions :: "string list" where
  "video_extensions = [''.mp4'', ''.mov'', ''.avi'', ''.mkv'', ''.webm'', ''.flv'']"

text \<open>The loop of lines 1031 to 1033.\<close>

fun format_utterances :: "(string \<times> string) list \<Rightarrow> string" where
  "format_utterances [] = []"
| "format_utterances ((speaker, txt) # us) =
     ''Speaker '' @ speaker @ '': '' @ txt @ [nl, nl] @ format_utterances us"

text \<open>
  Lines 1029 to 1041, the completed transcript. Without utterances the loop raises before
  the file is opened; without text the file is opened, hence emptied, before
  \<^verbatim>\<open>write(None)\<close> raises.
\<close>

definition process_transcript ::
  "path \<Rightarrow> batch_transcript \<Rightarrow> TranscriberApp \<Rightarrow> (TranscriberApp \<times> string) + TranscriberApp" where
  "process_transcript output_file tr s =
     (if multiple_speakers_cb s
      then (case utterances tr of
              None \<Rightarrow> Inl (s, [CHR 0x27] @ ''NoneType'' @ [CHR 0x27] @ '' object is not iterable'')
            | Some us \<Rightarrow>
                (let formatted_text = format_utterances us
                 in Inr ((write_file output_file formatted_text s)
                           \<lparr>transcript_display := [formatted_text]\<rparr>)))
      else (case full_text tr of
              None \<Rightarrow> Inl (write_file output_file [] s, ''write() argument must be str, not None'')
            | Some txt \<Rightarrow> Inr ((write_file output_file txt s)\<lparr>transcript_display := [txt]\<rparr>)))"

text \<open>
  The inner \<^verbatim>\<open>try\<close> block of \<^verbatim>\<open>upload_audio\<close> (lines 965 to 1044). It yields the
  temporary audio path as well, which the \<^verbatim>\<open>finally\<close> clause needs. The audio data
  itself is not modelled: the extracted file is created empty.
\<close>

definition upload_body ::
  "env \<Rightarrow> path \<Rightarrow> TranscriberApp \<Rightarrow> path option \<times> ((TranscriberApp \<times> string) + TranscriberApp)" where
  "upload_body e file_path s =
     (let file_ext = lower (snd (splitext file_path));
          is_video = (file_ext \<in> set video_extensions);
          s1 = (if is_video
                then log_debug e ''Extracting audio from video file...''
                       (showMessage ''Extracting audio from video...'' s)
                else s);
          temp_dir = path_join (output_dir s) ''_temp'';
          temp_path = path_join temp_dir (''temp_audio_'' @ now_stamp e @ ''.mp3'')
      in if is_video \<and> makedirs_error e \<noteq> None
         then (None, Inl (s1, the (makedirs_error e)))
         else if is_video \<and> extract_audio_error e \<noteq> None
         then (Some temp_path,
               Inl (s1\<lparr>trace := trace s1 @ [Makedirs temp_dir]\<rparr>, the (extract_audio_error e)))
         else
           (let s2 = (if is_video
                      then (write_file temp_path [] s1)
                             \<lparr>trace := trace s1 @ [Makedirs temp_dir, ExtractAudio file_path temp_path]\<rparr>
                      else s1);
                temp_audio_path = (if is_video then Some temp_path else None);
                file_to_transcribe = (if is_video then temp_path else file_path);
                s3 = (if strip (name_entry s2) = []
                      then s2\<lparr>name_entry := fst (splitext (basename file_path))\<rparr>
                      else s2);
                session_name = (if strip (name_entry s2) = []
                                then fst (splitext (basename file_path))
                                else strip (name_entry s2));
                session_dir = path_join (output_dir s3) session_name
            in case makedirs_error e of
                 Some msg \<Rightarrow> (temp_audio_path, Inl (s3, msg))
               | None \<Rightarrow>
                   (let output_file = path_join session_dir ''transcript.txt'';
                        s4 = showMessage ''Transcribing media file...''
                               (s3\<lparr>current_output_file := Some output_file,
                                   trace := trace s3 @ [Makedirs session_dir]\<rparr>);
                        s5 = s4\<lparr>record_button_enabled := False,
                                upload_button_enabled := False,
                                summarize_button_enabled := False\<rparr>;
                        cfg = [(''speaker_labels'', ArgBool (multiple_speakers_cb s5)),
                               (''language_code'', ArgStr (language_code_of (language_combo s5)))];
                        s6 = log_debug e ''Creating transcriber for file upload...''
                               (s5\<lparr>trace := trace s5 @ [SetSpeechApiKey (assembly_api_key s5)]\<rparr>);
                        s7 = s6\<lparr>trace := trace s6 @ [Transcribe file_to_transcribe cfg]\<rparr>
                    in case transcribe e file_to_transcribe cfg of
                         Inl msg \<Rightarrow> (temp_audio_path, Inl (s7, msg))
                       | Inr tr \<Rightarrow>
                           (case process_transcript output_file tr s7 of
                              Inl err \<Rightarrow> (temp_audio_path, Inl err)
                            | Inr s8 \<Rightarrow>
                                (temp_audio_path,
                                 Inr (showMessage ''Transcription completed successfully''
                                        (log_debug e ''Transcription processing completed'' s8)))))))"

text \<open>
  \<^verbatim>\<open>upload_audio\<close> (lines 941 to 1069): the guards, the inner \<^verbatim>\<open>try\<close>, its handler and
  its \<^verbatim>\<open>finally\<close> clause. Nothing that the outer handler (lines 1064 to 1069) catches
  can be raised by the statements outside the inner \<^verbatim>\<open>try\<close>.
\<close>

definition upload_audio :: "env \<Rightarrow> TranscriberApp \<Rightarrow> TranscriberApp" where
  "upload_audio e s =
     (if \<not> validate_api_keys s then s
      else if selected_file e = [] then s
      else
        (case upload_body e (selected_file e) s of
           (temp_audio_path, r) \<Rightarrow>
             (let s1 = (case r of
                          Inr s' \<Rightarrow> s'
                        | Inl (s', msg) \<Rightarrow>
                            (let error_msg = ''Error processing media file: '' @ msg
                             in showMessage error_msg (log_debug e error_msg s')));
                  s2 = s1\<lparr>record_button_enabled := True,
                          upload_button_enabled := True,
                          summarize_button_enabled := True\<rparr>
              in case temp_audio_path of
                   None \<Rightarrow> s2
                 | Some tmp \<Rightarrow>
                     if files s2 tmp = None then s2
                     else (case remove_error e of
                             Some msg \<Rightarrow> log_debug e (''Error removing temp file: '' @ msg) s2
                           | None \<Rightarrow> s2\<lparr>files := (files s2)(tmp := None),
                                         trace := trace s2 @ [RemoveFile tmp]\<rparr>))))"

section \<open>Settings\<close>

text \<open>
  The widgets of the settings dialog that \<^verbatim>\<open>load_settings\<close> and \<^verbatim>\<open>save_settings\<close> of
  \<^verbatim>\<open>SettingsDialog\<close> use. The dialog has no \<^verbatim>\<open>vocab_entry\<close>.
\<close>

record SettingsDialog =
  assembly_key :: string
  gemini_key :: string
  dir_entry :: string
  prompt_text :: string
  model_combo :: "string list"
  model_index :: nat

definition currentText :: "SettingsDialog \<Rightarrow> string" where
  "currentText d = (if model_index d < length (model_combo d) then model_combo d ! model_index d else [])"

fun findText :: "string list \<Rightarrow> string \<Rightarrow> nat option" where
  "findText [] x = None"
| "findText (y # ys) x = (if y = x then Some 0 else map_option Suc (findText ys x))"

definition default_output_dir :: "env \<Rightarrow> path" where
  "default_output_dir e = path_join (path_join (home_dir e) ''Documents'') ''Transcriptions''"

fun join_with :: "string \<Rightarrow> string list \<Rightarrow> string" where
  "join_with sep [] = []"
| "join_with sep [w] = w"
| "join_with sep (w # ws) = w @ sep @ join_with sep ws"

text \<open>
  \<^verbatim>\<open>SettingsDialog.save_settings\<close> (lines 120 to 152), with the parent window's state.
  The Boolean says whether the dialog was accepted.
\<close>

definition saved_settings :: "SettingsDialog \<Rightarrow> settings_json" where
  "saved_settings d =
     \<lparr>ASSEMBLY_API_KEY = Some (strip (assembly_key d)),
      GOOGLE_API_KEY = Some (strip (gemini_key d)),
      OUTPUT_DIR = Some (strip (dir_entry d)),
      CLEANUP_PROMPT = Some (strip (prompt_text d)),
      GEMINI_MODEL = Some (currentText d),
      CUSTOM_VOCABULARY = None\<rparr>"

definition SettingsDialog_save_settings ::
  "env \<Rightarrow> SettingsDialog \<Rightarrow> TranscriberApp \<Rightarrow> bool \<times> TranscriberApp" where
  "SettingsDialog_save_settings e d s =
     (case config_write_error e of
        Some msg \<Rightarrow>
          (False, s\<lparr>trace := trace s @ [Print (''Error: Failed to save settings: '' @ msg),
                                         MessageBox ''Error'' (''Failed to save settings: '' @ msg)]\<rparr>)
      | None \<Rightarrow>
          (True, s\<lparr>config := Json (saved_settings d),
                   assembly_api_key := strip (assembly_key d),
                   gemini_api_key := strip (gemini_key d),
                   output_dir := strip (dir_entry d),
                   cleanup_prompt_attr := PromptText (strip (prompt_text d)),
                   gemini_model := Some (currentText d),
                   trace := trace s @ [Print (''Settings saved to: '' @ config_path e),
                                       MessageBox ''Success'' ''Settings saved successfully!'']\<rparr>))"

text \<open>
  \<^verbatim>\<open>TranscriberApp.load_settings\<close> (lines 443 to 476). \<open>load_settings_body\<close> is the
  \<^verbatim>\<open>try\<close> block. The result of \<open>load_settings\<close> is \<open>Inl\<close> when \<^verbatim>\<open>os.makedirs\<close> raises
  inside the handler, which nothing catches.
\<close>

definition load_settings_body ::
  "env \<Rightarrow> TranscriberApp \<Rightarrow> (TranscriberApp \<times> string) + TranscriberApp" where
  "load_settings_body e s =
     (case config s of
        NoFile \<Rightarrow>
          (let s1 = print ''No existing settings file found, using defaults'' s
           in case makedirs_error e of
                Some msg \<Rightarrow> Inl (s1, msg)
              | None \<Rightarrow> Inr (s1\<lparr>trace := trace s1 @ [Makedirs (output_dir s1)]\<rparr>))
      | Unreadable msg \<Rightarrow> Inl (s, msg)
      | Json settings \<Rightarrow>
          (let s1 = s\<lparr>assembly_api_key := (case ASSEMBLY_API_KEY settings of Some v \<Rightarrow> v | None \<Rightarrow> []),
                      gemini_api_key := (case GOOGLE_API_KEY settings of Some v \<Rightarrow> v | None \<Rightarrow> []),
                      output_dir := (case OUTPUT_DIR settings of
                                       Some v \<Rightarrow> v | None \<Rightarrow> default_output_dir e),
                      cleanup_prompt_attr := (case CLEANUP_PROMPT settings of
                                                Some v \<Rightarrow> PromptText v | None \<Rightarrow> PromptFunction),
                      gemini_model := Some (case GEMINI_MODEL settings of
                                              Some v \<Rightarrow> v | None \<Rightarrow> ''gemini-1.5-flash'')\<rparr>;
               vocab_list = (case CUSTOM_VOCABULARY settings of Some v \<Rightarrow> v | None \<Rightarrow> [])
           in if vocab_list \<noteq> [] \<and> vocab_entry s1 = None
              then Inl (s1, no_attribute ''TranscriberApp'' ''vocab_entry'')
              else
                (let s2 = (if vocab_list \<noteq> []
                           then s1\<lparr>vocab_entry := Some (join_with '', '' vocab_list)\<rparr> else s1)
                 in Inr (print ''Settings loaded successfully'' s2))))"

definition load_settings :: "env \<Rightarrow> TranscriberApp \<Rightarrow> string + TranscriberApp" where
  "load_settings e s =
     (case load_settings_body e s of
        Inr s' \<Rightarrow> Inr s'
      | Inl (s', msg) \<Rightarrow>
          (let s1 = (print (''Error loading settings: '' @ msg) s')
                      \<lparr>assembly_api_key := [],
                       gemini_api_key := [],
                       output_dir := default_output_dir e,
                       cleanup_prompt_attr := PromptText (cleanup_prompt []),
                       gemini_model := Some ''gemini-1.5-flash''\<rparr>
           in case makedirs_error e of
                Some msg' \<Rightarrow> Inl msg'
              | None \<Rightarrow> Inr (s1\<lparr>trace := trace s1 @ [Makedirs (output_dir s1)]\<rparr>)))"

text \<open>
  \<^verbatim>\<open>SettingsDialog.load_settings\<close> (lines 81 to 118), reading the settings file
  \<open>cf\<close>. A non-empty vocabulary list makes line 105 raise, since the dialog has no
  \<^verbatim>\<open>vocab_entry\<close>; the handler shows a warning and keeps what was set before.
\<close>

definition SettingsDialog_load_settings ::
  "env \<Rightarrow> config_file \<Rightarrow> SettingsDialog \<Rightarrow> SettingsDialog \<times> effect list" where
  "SettingsDialog_load_settings e cf d =
     (let warn = (\<lambda>msg. [Print (''Error loading settings: '' @ msg),
                          MessageBox ''Warning'' ''Could not load settings. Using defaults.''])
      in case cf of
           NoFile \<Rightarrow>
             (d\<lparr>dir_entry := default_output_dir e, prompt_text := cleanup_prompt []\<rparr>,
              [Print ''No existing settings file found, using defaults''])
         | Unreadable msg \<Rightarrow> (d, warn msg)
         | Json settings \<Rightarrow>
             (let fx = [Print (''Loading settings from: '' @ config_path e)];
                  d1 = d\<lparr>assembly_key := (case ASSEMBLY_API_KEY settings of Some v \<Rightarrow> v | None \<Rightarrow> []),
                         gemini_key := (case GOOGLE_API_KEY settings of Some v \<Rightarrow> v | None \<Rightarrow> []),
                         dir_entry := (case OUTPUT_DIR settings of
                                         Some v \<Rightarrow> v | None \<Rightarrow> default_output_dir e),
                         prompt_text := (case CLEANUP_PROMPT settings of
                                           Some v \<Rightarrow> v | None \<Rightarrow> cleanup_prompt [])\<rparr>;
                  model_name = (case GEMINI_MODEL settings of
                                  Some v \<Rightarrow> v | None \<Rightarrow> ''gemini-1.5-flash'');
                  d2 = (case findText (model_combo d1) model_name of
                          Some i \<Rightarrow> d1\<lparr>model_index := i\<rparr> | None \<Rightarrow> d1);
                  vocab_list = (case CUSTOM_VOCABULARY settings of Some v \<Rightarrow> v | None \<Rightarrow> [])
              in if vocab_list \<noteq> []
                 then (d2, fx @ warn (no_attribute ''SettingsDialog'' ''vocab_entry''))
                 else (d2, fx @ [Print ''Settings loaded successfully''])))"

section \<open>A session\<close>

text \<open>
  An environment in which nothing fails, and the main window as \<^verbatim>\<open>setup_ui\<close> leaves it,
  with both keys set and a session name entered.
\<close>

definition env0 :: env where
  "env0 =
     \<lparr>now_hms = ''12:00:00'',
      now_stamp = ''20240101_120000'',
      makedirs_error = None,
      is_running = True,
      wait_result = True,
      connect_error = None,
      microphone_error = None,
      stream_callbacks = [],
      stream_error = None,
      transcriber_close_error = None,
      microphone_close_error = None,
      generate_content = (\<lambda>model prompt. Inr ''Cleaned.''),
      selected_file = ''/media/talk.mp3'',
      extract_audio_error = None,
      remove_error = None,
      home_dir = ''/home/user'',
      config_path = ''/home/user/.config/TranscribeApp/settings.json'',
      config_write_error = None,
      transcribe = (\<lambda>file cfg. Inr \<lparr>utterances = Some [(''A'', ''Hi''), (''B'', ''Hello'')],
                                       full_text = Some ''Hi Hello''\<rparr>)\<rparr>"

definition app0 :: TranscriberApp where
  "app0 =
     \<lparr>assembly_api_key = ''speech-key'',
      gemini_api_key = ''llm-key'',
      output_dir = ''/out'',
      cleanup_prompt_attr = PromptText ''Clean: {transcript}'',
      gemini_model = Some ''gemini-1.5-flash'',
      recording_thread = None,
      current_output_file = None,
      name_entry = ''demo'',
      vocab_entry = Some ''PyQt6'',
      language_combo = ''Spanish (es)'',
      multiple_speakers_cb = True,
      record_button_text = ''Start Recording'',
      record_button_enabled = True,
      upload_button_enabled = True,
      summarize_button_enabled = False,
      status_bar = [''Ready''],
      transcript_display = [],
      debug_display = Some [],
      files = Map.empty,
      config = NoFile,
      trace = []\<rparr>"

definition demo_file :: path where
  "demo_file = ''/out/demo/transcript.txt''"

definition demo_thread :: RecordingThread where
  "demo_thread =
     \<lparr>api_key = ''speech-key'', is_recording = False, transcriber = False,
      microphone_stream = False,
      transcriber_config = Some [(''speaker_labels'', ArgBool True),
                                 (''language_code'', ArgStr ''spanish (es)'')]\<rparr>"

text \<open>The state in which \<^verbatim>\<open>start_recording\<close> leaves the window above.\<close>

definition recording_app :: TranscriberApp where
  "recording_app =
     app0\<lparr>recording_thread := Some demo_thread,
          current_output_file := Some demo_file,
          record_button_text := ''Stop Recording'',
          upload_button_enabled := False,
          status_bar := [''Ready'', ''Initializing recording...''],
          debug_display := Some [''[12:00:00] Starting recording...''],
          trace := [Print ([nl] @ ''=== Starting Recording ===''),
                    Print ''DEBUG: Starting recording...'',
                    Makedirs ''/out/demo'',
                    Print ''RecordingThread initialized'',
                    StartThread ''speech-key'']\<rparr>"


text \<open>The recording state once a transcript has been written, and the same with a session
  named \<^verbatim>\<open>a.txt\<close>.\<close>

definition summary_app :: TranscriberApp where
  "summary_app =
     app0\<lparr>current_output_file := Some demo_file,
          files := [demo_file \<mapsto> ''Hello world.'' @ [nl]]\<rparr>"


text \<open>
  The thread of the session while it streams, and an environment in which closing the
  streaming connection raises.
\<close>

definition streaming_thread :: RecordingThread where
  "streaming_thread = demo_thread\<lparr>is_recording := True, transcriber := True, microphone_stream := True\<rparr>"

definition env_close_fails :: env where
  "env_close_fails = env0\<lparr>transcriber_close_error := Some ''connection lost''\<rparr>"

text \<open>
  Read off a trace: the keyword arguments of every streaming connection created, and the
  number of threads started. \<open>notifies\<close> marks the signals whose slot, as connected in
  \<open>deliver\<close>, ends in \<^verbatim>\<open>update_ui_recording_stopped\<close>.
\<close>

fun created_transcribers :: "effect list \<Rightarrow> kwargs list" where
  "created_transcribers [] = []"
| "created_transcribers (CreateRealtimeTranscriber kw # fx) = kw # created_transcribers fx"
| "created_transcribers (_ # fx) = created_transcribers fx"

fun thread_starts :: "effect list \<Rightarrow> nat" where
  "thread_starts [] = 0"
| "thread_starts (StartThread key # fx) = Suc (thread_starts fx)"
| "thread_starts (_ # fx) = thread_starts fx"

fun notifies :: "signal \<Rightarrow> bool" where
  "notifies (transcript_received tr) = False"
| "notifies (error_occurred msg) = True"
| "notifies recording_stopped = True"
| "notifies finished = True"

text \<open>
  A string without white space at either end, and two settings dialogs as filled in by
  the user: the first with a space in front of the speech key, the second without.
\<close>

definition unpadded :: "string \<Rightarrow> bool" where
  "unpadded x \<longleftrightarrow> x = [] \<or> (\<not> is_space (hd x) \<and> \<not> is_space (last x))"

definition dialog0 :: SettingsDialog where
  "dialog0 =
     \<lparr>assembly_key = '' speech-key'',
      gemini_key = ''llm-key'',
      dir_entry = ''/out'',
      prompt_text = ''Clean: {transcript}'',
      model_combo = [''gemini-1.5-pro'', ''gemini-1.5-flash''],
      model_index = 1\<rparr>"

definition dialog1 :: SettingsDialog where
  "dialog1 = dialog0\<lparr>assembly_key := ''speech-key''\<rparr>"

section \<open>Properties\<close>

text \<open>What the three output helpers change, field by field.\<close>

lemma print_fields [simp]:
  "assembly_api_key (print m s) = assembly_api_key s"
  "gemini_api_key (print m s) = gemini_api_key s"
  "output_dir (print m s) = output_dir s"
  "cleanup_prompt_attr (print m s) = cleanup_prompt_attr s"
  "gemini_model (print m s) = gemini_model s"
  "recording_thread (print m s) = recording_thread s"
  "current_output_file (print m s) = current_output_file s"
  "name_entry (print m s) = name_entry s"
  "vocab_entry (print m s) = vocab_entry s"
  "language_combo (print m s) = language_combo s"
  "multiple_speakers_cb (print m s) = multiple_speakers_cb s"
  "record_button_text (print m s) = record_button_text s"
  "record_button_enabled (print m s) = record_button_enabled s"
  "upload_button_enabled (print m s) = upload_button_enabled s"
  "summarize_button_enabled (print m s) = summarize_button_enabled s"
  "status_bar (print m s) = status_bar s"
  "transcript_display (print m s) = transcript_display s"
  "debug_display (print m s) = debug_display s"
  "files (print m s) = files s"
  "config (print m s) = config s"
  "trace (print m s) = trace s @ [Print m]"
  by (simp_all add: print_def)

lemma showMessage_fields [simp]:
  "assembly_api_key (showMessage m s) = assembly_api_key s"
  "gemini_api_key (showMessage m s) = gemini_api_key s"
  "output_dir (showMessage m s) = output_dir s"
  "cleanup_prompt_attr (showMessage m s) = cleanup_prompt_attr s"
  "gemini_model (showMessage m s) = gemini_model s"
  "recording_thread (showMessage m s) = recording_thread s"
  "current_output_file (showMessage m s) = current_output_file s"
  "name_entry (showMessage m s) = name_entry s"
  "vocab_entry (showMessage m s) = vocab_entry s"
  "language_combo (showMessage m s) = language_combo s"
  "multiple_speakers_cb (showMessage m s) = multiple_speakers_cb s"
  "record_button_text (showMessage m s) = record_button_text s"
  "record_button_enabled (showMessage m s) = record_button_enabled s"
  "upload_button_enabled (showMessage m s) = upload_button_enabled s"
  "summarize_button_enabled (showMessage m s) = summarize_button_enabled s"
  "status_bar (showMessage m s) = status_bar s @ [m]"
  "transcript_display (showMessage m s) = transcript_display s"
  "debug_display (showMessage m s) = debug_display s"
  "files (showMessage m s) = files s"
  "config (showMessage m s) = config s"
  "trace (showMessage m s) = trace s"
  by (simp_all add: showMessage_def)

lemma log_debug_fields [simp]:
  "assembly_api_key (log_debug e m s) = assembly_api_key s"
  "gemini_api_key (log_debug e m s) = gemini_api_key s"
  "output_dir (log_debug e m s) = output_dir s"
  "cleanup_prompt_attr (log_debug e m s) = cleanup_prompt_attr s"
  "gemini_model (log_debug e m s) = gemini_model s"
  "recording_thread (log_debug e m s) = recording_thread s"
  "current_output_file (log_debug e m s) = current_output_file s"
  "name_entry (log_debug e m s) = name_entry s"
  "vocab_entry (log_debug e m s) = vocab_entry s"
  "language_combo (log_debug e m s) = language_combo s"
  "multiple_speakers_cb (log_debug e m s) = multiple_speakers_cb s"
  "record_button_text (log_debug e m s) = record_button_text s"
  "record_button_enabled (log_debug e m s) = record_button_enabled s"
  "upload_button_enabled (log_debug e m s) = upload_button_enabled s"
  "summarize_button_enabled (log_debug e m s) = summarize_button_enabled s"
  "status_bar (log_debug e m s) = status_bar s"
  "transcript_display (log_debug e m s) = transcript_display s"
  "files (log_debug e m s) = files s"
  "config (log_debug e m s) = config s"
  "trace (log_debug e m s) = trace s @ [Print (''DEBUG: '' @ m)]"
  by (simp_all add: log_debug_def print_def Let_def split: option.splits)

lemma start_recording_app0: "start_recording env0 app0 = recording_app"
  by (simp add: start_recording_def recording_app_def app0_def env0_def log_debug_def print_def
      showMessage_def validate_api_keys_def Let_def strip_def is_space_def path_join_def
      new_RecordingThread_def demo_thread_def demo_file_def lower_def lower_char_def
      upper_chars_def lower_chars_def)

lemma handle_transcript_file:
  assumes "current_output_file s = Some p"
  shows "\<exists>s'. handle_transcript e tr s = Inr s' \<and> current_output_file s' = Some p \<and>
               content s' p = content s p @ nonempty_final_lines [tr] \<and>
               (\<forall>q. q \<noteq> p \<longrightarrow> files s' q = files s q)"
proof (cases tr)
  case (RealtimeFinalTranscript t)
  then show ?thesis
    using assms
    by (simp add: handle_transcript_def Let_def append_file_def content_def)
next
  case (RealtimePartialTranscript t)
  then show ?thesis
    using assms by (simp add: handle_transcript_def content_def)
qed

lemma nonempty_final_lines_Cons:
  "nonempty_final_lines (tr # trs) = nonempty_final_lines [tr] @ nonempty_final_lines trs"
  by (cases tr) simp_all

lemma handle_transcripts_file:
  assumes "current_output_file s = Some p"
  shows "\<exists>s'. handle_transcripts evs s = Inr s' \<and> current_output_file s' = Some p \<and>
               content s' p = content s p @ nonempty_final_lines (map snd evs) \<and>
               (\<forall>q. q \<noteq> p \<longrightarrow> files s' q = files s q)"
  using assms
proof (induction evs arbitrary: s)
  case Nil
  then show ?case by simp
next
  case (Cons ev evs)
  obtain e tr where ev: "ev = (e, tr)" by (cases ev)
  from handle_transcript_file [OF Cons.prems, of e tr]
  obtain s1 where s1: "handle_transcript e tr s = Inr s1" "current_output_file s1 = Some p"
    "content s1 p = content s p @ nonempty_final_lines [tr]"
    "\<forall>q. q \<noteq> p \<longrightarrow> files s1 q = files s q"
    by blast
  from Cons.IH [OF s1(2)]
  obtain s2 where s2: "handle_transcripts evs s1 = Inr s2" "current_output_file s2 = Some p"
    "content s2 p = content s1 p @ nonempty_final_lines (map snd evs)"
    "\<forall>q. q \<noteq> p \<longrightarrow> files s2 q = files s1 q"
    by blast
  have "nonempty_final_lines (map snd (ev # evs))
          = nonempty_final_lines [tr] @ nonempty_final_lines (map snd evs)"
    using nonempty_final_lines_Cons [of tr "map snd evs"] by (simp add: ev)
  with s1 s2 show ?case by (simp add: ev)
qed

lemma nonempty_final_lines_eq:
  "RealtimeFinalTranscript [] \<notin> set trs \<Longrightarrow> nonempty_final_lines trs = final_lines trs"
  by (induction trs rule: final_lines.induct) auto

text \<open>
  Claim C1, as the code has it. For every sequence of transcripts delivered to
  \<^verbatim>\<open>handle_transcript\<close> while an output file is set, every delivery returns, and the
  transcript file ends up holding what it held before followed by the text of exactly
  the final transcripts whose text is not empty, each followed by one newline, in
  delivery order. Partial transcripts are never written, and no other file changes.
\<close>

theorem final_transcripts_persisted:
  assumes "current_output_file s = Some p"
  shows "\<exists>s'. handle_transcripts evs s = Inr s' \<and>
               content s' p = content s p @ nonempty_final_lines (map snd evs) \<and>
               (\<forall>q. q \<noteq> p \<longrightarrow> files s' q = files s q)"
  using handle_transcripts_file [OF assms, of evs] by blast

theorem final_transcripts_persisted_witness:
  "current_output_file recording_app = Some demo_file \<and>
   (\<exists>s'. handle_transcripts
            [(env0, RealtimeFinalTranscript ''Hi''), (env0, RealtimePartialTranscript ''Hel''),
             (env0, RealtimeFinalTranscript []), (env0, RealtimeFinalTranscript ''Hello'')]
            recording_app = Inr s' \<and>
         content s' demo_file = ''Hi'' @ [nl] @ ''Hello'' @ [nl])"
proof -
  have h: "current_output_file recording_app = Some demo_file"
    by (simp add: recording_app_def)
  have c: "content recording_app demo_file = []"
    by (simp add: recording_app_def content_def app0_def)
  from final_transcripts_persisted [OF h,
      of "[(env0, RealtimeFinalTranscript ''Hi''), (env0, RealtimePartialTranscript ''Hel''),
           (env0, RealtimeFinalTranscript []), (env0, RealtimeFinalTranscript ''Hello'')]"]
  show ?thesis using h c by auto
qed

text \<open>
  Claim C1 as stated fails: a final transcript with empty text is delivered in the
  recording state, the claim asks for a line holding only a newline in the file, and the
  handler leaves the state, hence the file, as it was.
\<close>

theorem empty_final_transcript_not_persisted:
  "handle_transcripts [(env0, RealtimeFinalTranscript [])] recording_app = Inr recording_app \<and>
   content recording_app demo_file = [] \<and>
   final_lines [RealtimeFinalTranscript []] = [nl]"
  by (simp add: handle_transcript_def recording_app_def content_def app0_def)

text \<open>
  Claim C9. A transcript whose text is the empty string, final or partial, leaves the
  whole state as it is: no file is written, nothing is appended to the display, nothing
  is logged or printed.
\<close>

theorem empty_transcript_dropped:
  "transcript_text tr = [] \<Longrightarrow> handle_transcript e tr s = Inr s"
  by (simp add: handle_transcript_def)

theorem empty_transcript_dropped_witness:
  "transcript_text (RealtimeFinalTranscript []) = [] \<and>
   handle_transcript env0 (RealtimeFinalTranscript []) recording_app = Inr recording_app"
  using empty_transcript_dropped [of "RealtimeFinalTranscript []" env0 recording_app] by simp






lemma submitted_prompts_append [simp]:
  "submitted_prompts (fx @ fx') = submitted_prompts fx @ submitted_prompts fx'"
  by (induction fx rule: submitted_prompts.induct) simp_all

lemma create_summary_success:
  assumes "current_output_file s = Some p" "p \<noteq> []" "files s p = Some T" "strip T \<noteq> []"
    "gemini_model s = Some m" "generate_content e m (cleanup_prompt T) = Inr summary"
  shows "files (create_summary e s) = (files s)(summary_file_of p \<mapsto> summary)"
    and "submitted_prompts (trace (create_summary e s))
           = submitted_prompts (trace s) @ [cleanup_prompt T]"
  using assms
  by (simp_all add: create_summary_def create_summary_body_def Let_def write_file_def)

text \<open>
  The configured template plays no part in \<^verbatim>\<open>create_summary\<close>: changing the attribute
  changes nothing but the attribute in the resulting state.
\<close>

lemma create_summary_body_ignores_template:
  "create_summary_body e (s\<lparr>cleanup_prompt_attr := a\<rparr>)
     = map_sum (\<lambda>(s', msg). (s'\<lparr>cleanup_prompt_attr := a\<rparr>, msg)) (\<lambda>s'. s'\<lparr>cleanup_prompt_attr := a\<rparr>)
         (create_summary_body e s)"
  by (simp add: create_summary_body_def Let_def write_file_def showMessage_def log_debug_def
      print_def split: option.splits sum.splits)

lemma log_debug_template:
  "log_debug e m (s\<lparr>cleanup_prompt_attr := a\<rparr>) = (log_debug e m s)\<lparr>cleanup_prompt_attr := a\<rparr>"
  by (simp add: log_debug_def print_def Let_def split: option.splits)

lemma showMessage_template:
  "showMessage m (s\<lparr>cleanup_prompt_attr := a\<rparr>) = (showMessage m s)\<lparr>cleanup_prompt_attr := a\<rparr>"
  by (simp add: showMessage_def)

lemma create_summary_ignores_template:
  "create_summary e (s\<lparr>cleanup_prompt_attr := a\<rparr>) = (create_summary e s)\<lparr>cleanup_prompt_attr := a\<rparr>"
  by (simp add: create_summary_def log_debug_template showMessage_template
      create_summary_body_ignores_template Let_def split: sum.splits prod.splits)

lemma strip_hello: "strip (''Hello world.'' @ [nl]) \<noteq> []"
  by (simp add: strip_def is_space_def nl_def)

lemma prompt_differs:
  "cleanup_prompt (''Hello world.'' @ [nl]) \<noteq> ''Clean: Hello world.'' @ [nl]"
  by (simp add: cleanup_prompt_def prompt_lines_def)

text \<open>
  Claim C2 at the input of its example. The window's configured template is
  \<^verbatim>\<open>Clean: {transcript}\<close> and the transcript file holds \<^verbatim>\<open>Hello world.\<close> and a newline.
  The one prompt submitted is the built-in text of \<^verbatim>\<open>cleanup_prompt\<close> followed by the
  transcript, which is not \<^verbatim>\<open>Clean: Hello world.\<close> and a newline; the text returned by
  the service is what the summary file holds.
\<close>

theorem configured_template_not_submitted:
  "cleanup_prompt_attr summary_app = PromptText ''Clean: {transcript}'' \<and>
   files summary_app demo_file = Some (''Hello world.'' @ [nl]) \<and>
   submitted_prompts (trace (create_summary env0 summary_app))
     = [cleanup_prompt (''Hello world.'' @ [nl])] \<and>
   cleanup_prompt (''Hello world.'' @ [nl]) \<noteq> ''Clean: Hello world.'' @ [nl] \<and>
   files (create_summary env0 summary_app) (summary_file_of demo_file) = Some ''Cleaned.''"
proof -
  have a: "current_output_file summary_app = Some demo_file" "demo_file \<noteq> []"
    "files summary_app demo_file = Some (''Hello world.'' @ [nl])"
    "gemini_model summary_app = Some ''gemini-1.5-flash''"
    "trace summary_app = []"
    "cleanup_prompt_attr summary_app = PromptText ''Clean: {transcript}''"
    by (simp_all add: summary_app_def app0_def demo_file_def)
  note b = strip_hello
  have c: "generate_content env0 ''gemini-1.5-flash'' (cleanup_prompt (''Hello world.'' @ [nl]))
             = Inr ''Cleaned.''"
    by (simp add: env0_def)
  note r = create_summary_success [OF a(1) a(2) a(3) b a(4) c]
  show ?thesis
    using a(3,5,6) prompt_differs by (simp add: r)
qed



lemma emitted_append [simp]: "emitted (fx @ fx') = emitted fx @ emitted fx'"
  by (induction fx rule: emitted.induct) simp_all

lemma created_transcribers_append [simp]:
  "created_transcribers (fx @ fx') = created_transcribers fx @ created_transcribers fx'"
  by (induction fx rule: created_transcribers.induct) simp_all

lemma thread_starts_append [simp]:
  "thread_starts (fx @ fx') = thread_starts fx + thread_starts fx'"
  by (induction fx rule: thread_starts.induct) simp_all

lemma cleanup_signals:
  "emitted (snd (cleanup e t)) =
     (if transcriber t \<and> transcriber_close_error e \<noteq> None
      then [error_occurred (the (transcriber_close_error e))]
      else if microphone_stream t \<and> microphone_close_error e \<noteq> None
      then [error_occurred (the (microphone_close_error e))]
      else [recording_stopped])"
  by (auto simp: cleanup_def cleanup_failed_def Let_def)

text \<open>
  Claim C4 at a failing input. The thread holds a streaming connection and a microphone
  stream, and closing the connection raises. The exception is caught, but the handler is
  the only thing that runs after it: the microphone stream is not closed and stays in
  the attribute, and the thread emits \<^verbatim>\<open>error_occurred\<close> instead of
  \<^verbatim>\<open>recording_stopped\<close>.
\<close>

theorem cleanup_skips_microphone:
  "cleanup env_close_fails streaming_thread
     = (streaming_thread\<lparr>is_recording := False\<rparr>,
        [Print ''Starting cleanup...'', Print ''Closing transcriber...'',
         Print ''Error during cleanup: connection lost'',
         Emit (error_occurred ''connection lost'')]) \<and>
   microphone_stream (fst (cleanup env_close_fails streaming_thread)) \<and>
   CloseMicrophone \<notin> set (snd (cleanup env_close_fails streaming_thread)) \<and>
   emitted (snd (cleanup env_close_fails streaming_thread)) = [error_occurred ''connection lost'']"
  by (simp add: cleanup_def cleanup_failed_def Let_def env_close_fails_def env0_def
      streaming_thread_def demo_thread_def)

lemma run_ignores_config:
  "snd (run e (t\<lparr>transcriber_config := c\<rparr>)) = snd (run e t)"
  by (auto simp: run_def run_body_def cleanup_def cleanup_failed_def Let_def
      split: option.splits prod.splits)

lemma created_transcribers_callbacks [simp]:
  "created_transcribers (concat (map run_callback cbs)) = []"
proof (induction cbs)
  case Nil
  then show ?case by simp
next
  case (Cons cb cbs)
  then show ?case by (cases cb rule: run_callback.cases) simp_all
qed

lemma run_creates_one_transcriber:
  "created_transcribers (snd (run e t)) = [transcriber_kwargs]"
  by (auto simp: run_def run_body_def cleanup_def cleanup_failed_def Let_def
      split: option.splits prod.splits)

text \<open>
  Claim C6 at a failing input. With both keys set, Spanish selected, speaker detection
  ticked and a vocabulary entered, \<^verbatim>\<open>start_recording\<close> stores the two options in the
  attribute \<^verbatim>\<open>transcriber_config\<close> of the new thread, and \<^verbatim>\<open>run\<close> creates its one
  streaming connection from the two callbacks, the sample rate and the silence threshold
  alone: no language code, no speaker flag, no vocabulary.
\<close>

theorem live_connection_ignores_configuration:
  "recording_thread (start_recording env0 app0) = Some demo_thread \<and>
   transcriber_config demo_thread
     = Some [(''speaker_labels'', ArgBool True), (''language_code'', ArgStr ''spanish (es)'')] \<and>
   vocab_entry app0 = Some ''PyQt6'' \<and>
   created_transcribers (snd (run env0 demo_thread))
     = [[(''on_data'', ArgCallback ''_on_data''), (''on_error'', ArgCallback ''_on_error''),
         (''sample_rate'', ArgInt 44100), (''end_utterance_silence_threshold'', ArgInt 700)]]"
proof -
  have "recording_thread (start_recording env0 app0) = Some demo_thread"
    by (simp add: start_recording_app0 recording_app_def)
  moreover have "vocab_entry app0 = Some ''PyQt6''"
    by (simp add: app0_def)
  ultimately show ?thesis
    using run_creates_one_transcriber [of env0 demo_thread]
    by (simp add: demo_thread_def transcriber_kwargs_def)
qed

lemma update_ui_keeps [simp]:
  "trace (update_ui_recording_stopped s) = trace s"
  "current_output_file (update_ui_recording_stopped s) = current_output_file s"
  "recording_thread (update_ui_recording_stopped s) = recording_thread s"
  "record_button_text (update_ui_recording_stopped s) = ''Start Recording''"
  "status_bar (update_ui_recording_stopped s) = status_bar s @ [''Recording stopped'']"
  by (simp_all add: update_ui_recording_stopped_def)

lemma requestStop_starts [simp]: "thread_starts (fst (snd (requestStop e t))) = 0"
  by (simp add: requestStop_def Let_def split: option.splits)

lemma stop_recording_starts [simp]:
  "thread_starts (trace (stop_recording e s)) = thread_starts (trace s)"
proof -
  have "thread_starts fx = 0" if "requestStop e t = (t', fx, exc)" for t t' fx exc
    using requestStop_starts [of e t] that by simp
  then show ?thesis
    by (simp add: stop_recording_def Let_def split: option.splits prod.splits)
qed

lemma stop_recording_file [simp]:
  "current_output_file (stop_recording e s) = current_output_file s"
  by (simp add: stop_recording_def Let_def split: option.splits prod.splits)

lemma stopped_count_simps [simp]:
  "stopped_count (update_ui_recording_stopped s) = Suc (stopped_count s)"
  "stopped_count (log_debug e m s) = stopped_count s"
  "stopped_count (showMessage m s)
     = stopped_count s + (if m = ''Recording stopped'' then 1 else 0)"
  "stopped_count (s\<lparr>trace := fx\<rparr>) = stopped_count s"
  "stopped_count (s\<lparr>recording_thread := th\<rparr>) = stopped_count s"
  "stopped_count (s\<lparr>record_button_enabled := b\<rparr>) = stopped_count s"
  "stopped_count (s\<lparr>record_button_text := txt\<rparr>) = stopped_count s"
  by (simp_all add: stopped_count_def)

lemma stop_recording_count [simp]:
  "stopped_count (stop_recording e s) = Suc (stopped_count s)"
  by (simp add: stop_recording_def Let_def split: option.splits prod.splits)

lemma handle_thread_finished_count [simp]:
  "stopped_count (handle_thread_finished e s) = Suc (stopped_count s)"
  "current_output_file (handle_thread_finished e s) = current_output_file s"
  by (simp_all add: handle_thread_finished_def Let_def split: option.splits)

lemma handle_recording_error_count [simp]:
  "stopped_count (handle_recording_error e msg s) = Suc (stopped_count s)"
  "current_output_file (handle_recording_error e msg s) = current_output_file s"
  by (simp_all add: handle_recording_error_def)

lemma handle_transcript_count:
  "handle_transcript e tr s = Inr s' \<Longrightarrow> stopped_count s' = stopped_count s"
  by (auto simp: handle_transcript_def Let_def stopped_count_def append_file_def
      split: if_splits transcript.splits option.splits)

lemma deliver_count:
  assumes "current_output_file s = Some p"
  shows "\<exists>s'. deliver e sg s = Inr s' \<and> current_output_file s' = Some p \<and>
               stopped_count s' = stopped_count s + (if notifies sg then 1 else 0)"
proof (cases sg)
  case (transcript_received tr)
  from handle_transcript_file [OF assms, of e tr]
  obtain s' where "handle_transcript e tr s = Inr s'" "current_output_file s' = Some p"
    by blast
  then show ?thesis
    using transcript_received handle_transcript_count [of e tr s s'] by simp
qed (simp_all add: assms)

lemma deliver_all_count:
  assumes "current_output_file s = Some p"
  shows "\<exists>s'. deliver_all sgs s = Inr s' \<and>
               stopped_count s' = stopped_count s + length (filter notifies (map snd sgs))"
  using assms
proof (induction sgs arbitrary: s)
  case Nil
  then show ?case by simp
next
  case (Cons a sgs)
  obtain e sg where a: "a = (e, sg)" by (cases a)
  from deliver_count [OF Cons.prems, of e sg]
  obtain s1 where s1: "deliver e sg s = Inr s1" "current_output_file s1 = Some p"
    "stopped_count s1 = stopped_count s + (if notifies sg then 1 else 0)"
    by blast
  from Cons.IH [OF s1(2)]
  obtain s2 where "deliver_all sgs s1 = Inr s2"
    "stopped_count s2 = stopped_count s1 + length (filter notifies (map snd sgs))"
    by blast
  with s1 show ?case by (simp add: a)
qed

text \<open>
  Claim C3, as the code has it. Whatever the thread does (not running, stopping in time,
  terminated after the timeout, or \<^verbatim>\<open>requestStop\<close> raising), \<^verbatim>\<open>stop_recording\<close> gives
  the terminal notification exactly once; and every \<^verbatim>\<open>recording_stopped\<close>,
  \<^verbatim>\<open>finished\<close> or \<^verbatim>\<open>error_occurred\<close> signal of the thread delivered afterwards gives it
  once more, every delivery returning.
\<close>

theorem stop_notifies_once_and_signals_again:
  assumes "current_output_file s = Some p"
  shows "stopped_count (stop_recording e s) = stopped_count s + 1 \<and>
         (\<exists>s'. deliver_all sgs (stop_recording e s) = Inr s' \<and>
               stopped_count s' = stopped_count s + 1 + length (filter notifies (map snd sgs)))"
proof -
  have "current_output_file (stop_recording e s) = Some p"
    using assms by simp
  from deliver_all_count [OF this, of sgs] show ?thesis by simp
qed

theorem stop_notifies_once_and_signals_again_witness:
  "current_output_file recording_app = Some demo_file \<and>
   stopped_count (stop_recording env0 recording_app) = stopped_count recording_app + 1 \<and>
   (\<exists>s'. deliver_all [(env0, recording_stopped), (env0, finished)]
            (stop_recording env0 recording_app) = Inr s' \<and>
         stopped_count s' = stopped_count recording_app + 1 + 2)"
proof -
  have h: "current_output_file recording_app = Some demo_file"
    by (simp add: recording_app_def)
  from stop_notifies_once_and_signals_again [OF h, of env0 "[(env0, recording_stopped), (env0, finished)]"]
  show ?thesis using h by simp
qed

text \<open>
  Claim C3 as stated fails on a graceful stop. The thread of the session, run to its end
  without any failure, emits \<^verbatim>\<open>recording_stopped\<close>, and \<^verbatim>\<open>finished\<close> follows when
  \<^verbatim>\<open>run\<close> returns; \<^verbatim>\<open>stop_recording\<close> and the two slots give the notification three
  times.
\<close>

theorem graceful_stop_notifies_three_times:
  "emitted (snd (run env0 demo_thread)) = [recording_stopped] \<and>
   stopped_count recording_app = 0 \<and>
   map_sum id stopped_count
     (deliver_all [(env0, recording_stopped), (env0, finished)]
        (stop_recording env0 recording_app)) = Inr 3"
proof -
  have "emitted (snd (run env0 demo_thread)) = [recording_stopped]"
    by (simp add: run_def run_body_def env0_def cleanup_def Let_def demo_thread_def)
  moreover have "stopped_count recording_app = 0"
    by (simp add: stopped_count_def recording_app_def app0_def)
  ultimately show ?thesis by simp
qed







lemma last_path_join: "b \<noteq> [] \<Longrightarrow> last (path_join a b) = last b"
  by (simp add: path_join_def)

lemma process_transcript_speakers:
  assumes "multiple_speakers_cb s" "utterances tr = Some us"
  shows "process_transcript p tr s
           = Inr ((write_file p (format_utterances us) s)\<lparr>transcript_display := [format_utterances us]\<rparr>)"
  using assms by (simp add: process_transcript_def Let_def)

lemma write_file_keeps [simp]:
  "current_output_file (write_file p txt s) = current_output_file s"
  "multiple_speakers_cb (write_file p txt s) = multiple_speakers_cb s"
  "files (write_file p txt s) = (files s)(p \<mapsto> txt)"
  "trace (write_file p txt s) = trace s"
  "name_entry (write_file p txt s) = name_entry s"
  "output_dir (write_file p txt s) = output_dir s"
  "language_combo (write_file p txt s) = language_combo s"
  "assembly_api_key (write_file p txt s) = assembly_api_key s"
  by (simp_all add: write_file_def)

lemma upload_body_audio:
  assumes "lower (snd (splitext f)) \<notin> set video_extensions"
    "multiple_speakers_cb s" "makedirs_error e = None"
    "transcribe e f [(''speaker_labels'', ArgBool True),
                     (''language_code'', ArgStr (language_code_of (language_combo s)))] = Inr tr"
    "utterances tr = Some us"
  shows "\<exists>s'. upload_body e f s = (None, Inr s') \<and>
           current_output_file s'
             = Some (path_join (path_join (output_dir s)
                       (if strip (name_entry s) = [] then fst (splitext (basename f))
                        else strip (name_entry s))) ''transcript.txt'') \<and>
           files s' = (files s)(path_join (path_join (output_dir s)
                       (if strip (name_entry s) = [] then fst (splitext (basename f))
                        else strip (name_entry s))) ''transcript.txt'' \<mapsto> format_utterances us)"
  using assms
  by (simp add: upload_body_def Let_def process_transcript_speakers)


lemma upload_body_video:
  assumes "lower (snd (splitext f)) \<in> set video_extensions"
    "multiple_speakers_cb s" "makedirs_error e = None" "extract_audio_error e = None"
    "transcribe e (path_join (path_join (output_dir s) ''_temp'')
                     (''temp_audio_'' @ now_stamp e @ ''.mp3''))
       [(''speaker_labels'', ArgBool True),
        (''language_code'', ArgStr (language_code_of (language_combo s)))] = Inr tr"
    "utterances tr = Some us"
  shows "\<exists>s'. upload_body e f s
                 = (Some (path_join (path_join (output_dir s) ''_temp'')
                            (''temp_audio_'' @ now_stamp e @ ''.mp3'')), Inr s') \<and>
           current_output_file s'
             = Some (path_join (path_join (output_dir s)
                       (if strip (name_entry s) = [] then fst (splitext (basename f))
                        else strip (name_entry s))) ''transcript.txt'') \<and>
           files s' = (files s)
              (path_join (path_join (output_dir s) ''_temp'')
                 (''temp_audio_'' @ now_stamp e @ ''.mp3'') \<mapsto> [],
               path_join (path_join (output_dir s)
                       (if strip (name_entry s) = [] then fst (splitext (basename f))
                        else strip (name_entry s))) ''transcript.txt'' \<mapsto> format_utterances us)"
  using assms
  by (simp add: upload_body_def Let_def process_transcript_speakers)


lemma upload_audio_speakers:
  assumes "validate_api_keys s" "selected_file e \<noteq> []" "multiple_speakers_cb s"
    "makedirs_error e = None" "extract_audio_error e = None"
    "\<And>f cfg. \<exists>tr. transcribe e f cfg = Inr tr \<and> utterances tr = Some us"
  shows "\<exists>p. current_output_file (upload_audio e s) = Some p \<and>
              files (upload_audio e s) p = Some (format_utterances us)"
proof -
  define f where "f = selected_file e"
  define tmp where "tmp = path_join (path_join (output_dir s) ''_temp'')
                            (''temp_audio_'' @ now_stamp e @ ''.mp3'')"
  define p where "p = path_join (path_join (output_dir s)
                       (if strip (name_entry s) = [] then fst (splitext (basename f))
                        else strip (name_entry s))) ''transcript.txt''"
  define cfg where "cfg = [(''speaker_labels'', ArgBool True),
                           (''language_code'', ArgStr (language_code_of (language_combo s)))]"
  have ne: "p \<noteq> tmp"
  proof
    assume "p = tmp"
    then have "last p = last tmp" by simp
    then show False
      by (simp add: p_def tmp_def last_path_join)
  qed
  have guards: "upload_audio e s =
      (case upload_body e f s of
         (temp_audio_path, r) \<Rightarrow>
           (let s1 = (case r of
                        Inr s' \<Rightarrow> s'
                      | Inl (s', msg) \<Rightarrow>
                          (let error_msg = ''Error processing media file: '' @ msg
                           in showMessage error_msg (log_debug e error_msg s')));
                s2 = s1\<lparr>record_button_enabled := True,
                        upload_button_enabled := True,
                        summarize_button_enabled := True\<rparr>
            in case temp_audio_path of
                 None \<Rightarrow> s2
               | Some tmp \<Rightarrow>
                   if files s2 tmp = None then s2
                   else (case remove_error e of
                           Some msg \<Rightarrow> log_debug e (''Error removing temp file: '' @ msg) s2
                         | None \<Rightarrow> s2\<lparr>files := (files s2)(tmp := None),
                                       trace := trace s2 @ [RemoveFile tmp]\<rparr>)))"
    using assms(1,2) by (simp add: upload_audio_def f_def)
  show ?thesis
  proof (cases "lower (snd (splitext f)) \<in> set video_extensions")
    case False
    obtain tr where tr: "transcribe e f cfg = Inr tr" "utterances tr = Some us"
      using assms(6) by blast
    from upload_body_audio [OF False assms(3,4) tr [unfolded cfg_def]]
    obtain s' where s': "upload_body e f s = (None, Inr s')"
      "current_output_file s' = Some p" "files s' = (files s)(p \<mapsto> format_utterances us)"
      unfolding p_def by blast
    have "current_output_file (upload_audio e s) = Some p \<and>
          files (upload_audio e s) p = Some (format_utterances us)"
      by (simp add: guards s')
    then show ?thesis by blast
  next
    case True
    obtain tr where tr: "transcribe e tmp cfg = Inr tr" "utterances tr = Some us"
      using assms(6) by blast
    from upload_body_video [OF True assms(3,4,5) tr [unfolded cfg_def tmp_def]]
    obtain s' where s': "upload_body e f s = (Some tmp, Inr s')"
      "current_output_file s' = Some p"
      "files s' = (files s)(tmp \<mapsto> [], p \<mapsto> format_utterances us)"
      unfolding p_def tmp_def by blast
    have "current_output_file (upload_audio e s) = Some p \<and>
          files (upload_audio e s) p = Some (format_utterances us)"
      using ne by (simp add: guards s' Let_def split: option.splits)
    then show ?thesis by blast
  qed
qed

text \<open>
  Claim C8. With both keys set, a file chosen, speaker detection ticked, and no failure
  in creating directories or extracting audio, when the speech service returns the
  utterances of speaker A saying \<^verbatim>\<open>Hi\<close> and speaker B saying \<^verbatim>\<open>Hello\<close>,
  \<^verbatim>\<open>upload_audio\<close> leaves the transcript file holding exactly
  \<^verbatim>\<open>Speaker A: Hi\<close>, two newlines, \<^verbatim>\<open>Speaker B: Hello\<close>, two newlines; this for an audio
  file and for a video file, whose temporary audio file is removed afterwards.
\<close>

theorem upload_writes_speaker_blocks:
  assumes "validate_api_keys s" "selected_file e \<noteq> []" "multiple_speakers_cb s"
    "makedirs_error e = None" "extract_audio_error e = None"
    "\<And>f cfg. \<exists>tr. transcribe e f cfg = Inr tr \<and>
                    utterances tr = Some [(''A'', ''Hi''), (''B'', ''Hello'')]"
  shows "\<exists>p. current_output_file (upload_audio e s) = Some p \<and>
              files (upload_audio e s) p
                = Some (''Speaker A: Hi'' @ [nl, nl] @ ''Speaker B: Hello'' @ [nl, nl])"
  using upload_audio_speakers [OF assms] by simp

theorem upload_writes_speaker_blocks_witness:
  "validate_api_keys app0 \<and> selected_file env0 \<noteq> [] \<and> multiple_speakers_cb app0 \<and>
   makedirs_error env0 = None \<and> extract_audio_error env0 = None \<and>
   (\<exists>p. current_output_file (upload_audio env0 app0) = Some p \<and>
        files (upload_audio env0 app0) p
          = Some (''Speaker A: Hi'' @ [nl, nl] @ ''Speaker B: Hello'' @ [nl, nl]))"
proof -
  have a: "validate_api_keys app0" "selected_file env0 \<noteq> []" "multiple_speakers_cb app0"
    "makedirs_error env0 = None" "extract_audio_error env0 = None"
    by (simp_all add: validate_api_keys_def app0_def env0_def)
  have b: "\<exists>tr. transcribe env0 f cfg = Inr tr \<and>
                utterances tr = Some [(''A'', ''Hi''), (''B'', ''Hello'')]" for f cfg
    by (simp add: env0_def)
  from upload_writes_speaker_blocks [OF a b] show ?thesis using a by simp
qed

lemma strip_unpadded: "unpadded x \<Longrightarrow> strip x = x"
proof (cases x)
  case Nil
  then show ?thesis by (simp add: strip_def)
next
  case (Cons c cs)
  assume "unpadded x"
  with Cons have h: "\<not> is_space (hd x)" "\<not> is_space (last x)" "x \<noteq> []"
    by (simp_all add: unpadded_def)
  have 1: "dropWhile is_space x = x"
    using h(1) by (simp add: dropWhile_eq_self_iff)
  have "hd (rev x) = last x" using h(3) by (simp add: hd_rev)
  then have 2: "dropWhile is_space (rev x) = rev x"
    using h(2) by (simp add: dropWhile_eq_self_iff)
  show ?thesis by (simp add: strip_def 1 2)
qed

lemma findText_Some: "findText xs x = Some i \<Longrightarrow> i < length xs \<and> xs ! i = x"
  by (induction xs arbitrary: i) (auto split: if_splits)

lemma findText_mem: "x \<in> set xs \<Longrightarrow> \<exists>i. findText xs x = Some i"
  by (induction xs) auto

lemma save_then_load:
  assumes "config_write_error e = None"
  shows "SettingsDialog_save_settings e d s
           = (True, snd (SettingsDialog_save_settings e d s))"
    and "config (snd (SettingsDialog_save_settings e d s)) = Json (saved_settings d)"
    and "\<exists>s2. load_settings e' (snd (SettingsDialog_save_settings e d s)) = Inr s2 \<and>
              assembly_api_key s2 = strip (assembly_key d) \<and>
              gemini_api_key s2 = strip (gemini_key d) \<and>
              output_dir s2 = strip (dir_entry d) \<and>
              cleanup_prompt_attr s2 = PromptText (strip (prompt_text d)) \<and>
              gemini_model s2 = Some (currentText d)"
  using assms
  by (simp_all add: SettingsDialog_save_settings_def load_settings_def load_settings_body_def
      saved_settings_def Let_def print_def)

lemma dialog_reload:
  "assembly_key (fst (SettingsDialog_load_settings e (Json (saved_settings d)) d'))
     = strip (assembly_key d)"
  "gemini_key (fst (SettingsDialog_load_settings e (Json (saved_settings d)) d'))
     = strip (gemini_key d)"
  "dir_entry (fst (SettingsDialog_load_settings e (Json (saved_settings d)) d'))
     = strip (dir_entry d)"
  "prompt_text (fst (SettingsDialog_load_settings e (Json (saved_settings d)) d'))
     = strip (prompt_text d)"
  by (simp_all add: SettingsDialog_load_settings_def saved_settings_def Let_def
      split: option.splits)

lemma dialog_reload_model:
  assumes "model_combo d' = model_combo d" "model_index d < length (model_combo d)"
  shows "currentText (fst (SettingsDialog_load_settings e (Json (saved_settings d)) d'))
           = currentText d"
proof -
  have "currentText d \<in> set (model_combo d')"
    using assms by (simp add: currentText_def)
  then obtain i where i: "findText (model_combo d') (currentText d) = Some i"
    using findText_mem by blast
  then have "i < length (model_combo d') \<and> model_combo d' ! i = currentText d"
    by (rule findText_Some)
  then show ?thesis
    using i by (simp add: SettingsDialog_load_settings_def saved_settings_def Let_def currentText_def)
qed

text \<open>
  Claim C5, as the code has it. When the settings file can be written,
  \<^verbatim>\<open>SettingsDialog.save_settings\<close> accepts the dialog and writes the five keys it
  collects, and reloading, by \<^verbatim>\<open>TranscriberApp.load_settings\<close> or into a settings dialog,
  yields the two keys, the output directory and the prompt template with the white space
  at their ends removed, and the model name as selected (in a dialog, when its list
  offers the same models). Fields without white space at their ends are reloaded
  identical.
\<close>

theorem settings_reload_stripped:
  assumes "config_write_error e = None"
  shows "\<exists>s1 s2. SettingsDialog_save_settings e d s = (True, s1) \<and>
           config s1 = Json (saved_settings d) \<and>
           load_settings e' s1 = Inr s2 \<and>
           assembly_api_key s2 = strip (assembly_key d) \<and>
           gemini_api_key s2 = strip (gemini_key d) \<and>
           output_dir s2 = strip (dir_entry d) \<and>
           cleanup_prompt_attr s2 = PromptText (strip (prompt_text d)) \<and>
           gemini_model s2 = Some (currentText d) \<and>
           assembly_key (fst (SettingsDialog_load_settings e' (config s1) d'))
             = strip (assembly_key d) \<and>
           gemini_key (fst (SettingsDialog_load_settings e' (config s1) d'))
             = strip (gemini_key d) \<and>
           dir_entry (fst (SettingsDialog_load_settings e' (config s1) d'))
             = strip (dir_entry d) \<and>
           prompt_text (fst (SettingsDialog_load_settings e' (config s1) d'))
             = strip (prompt_text d) \<and>
           (model_combo d' = model_combo d \<and> model_index d < length (model_combo d) \<longrightarrow>
              currentText (fst (SettingsDialog_load_settings e' (config s1) d')) = currentText d) \<and>
           (unpadded (assembly_key d) \<and> unpadded (gemini_key d) \<and> unpadded (dir_entry d) \<and>
            unpadded (prompt_text d) \<longrightarrow>
              assembly_api_key s2 = assembly_key d \<and> gemini_api_key s2 = gemini_key d \<and>
              output_dir s2 = dir_entry d \<and> cleanup_prompt_attr s2 = PromptText (prompt_text d))"
proof -
  define s1 where "s1 = snd (SettingsDialog_save_settings e d s)"
  note sl = save_then_load(1) [OF assms, of d s, folded s1_def]
    save_then_load(2) [OF assms, of d s, folded s1_def]
    save_then_load(3) [OF assms, of e' d s, folded s1_def]
  from sl(3) obtain s2 where s2: "load_settings e' s1 = Inr s2"
    "assembly_api_key s2 = strip (assembly_key d)"
    "gemini_api_key s2 = strip (gemini_key d)"
    "output_dir s2 = strip (dir_entry d)"
    "cleanup_prompt_attr s2 = PromptText (strip (prompt_text d))"
    "gemini_model s2 = Some (currentText d)"
    by blast
  show ?thesis
    apply (rule exI [of _ s1], rule exI [of _ s2])
    using sl(1,2) s2 dialog_reload [of e' d d'] dialog_reload_model [of d' d e']
    by (simp add: strip_unpadded)
qed

theorem settings_reload_stripped_witness:
  "config_write_error env0 = None \<and>
   unpadded (assembly_key dialog1) \<and> unpadded (gemini_key dialog1) \<and>
   unpadded (dir_entry dialog1) \<and> unpadded (prompt_text dialog1) \<and>
   model_index dialog1 < length (model_combo dialog1) \<and>
   (\<exists>s1 s2. SettingsDialog_save_settings env0 dialog1 app0 = (True, s1) \<and>
        load_settings env0 s1 = Inr s2 \<and>
        assembly_api_key s2 = ''speech-key'' \<and> gemini_api_key s2 = ''llm-key'' \<and>
        output_dir s2 = ''/out'' \<and> cleanup_prompt_attr s2 = PromptText ''Clean: {transcript}'' \<and>
        gemini_model s2 = Some ''gemini-1.5-flash'' \<and>
        currentText (fst (SettingsDialog_load_settings env0 (config s1) dialog1))
          = ''gemini-1.5-flash'')"
proof -
  have a: "config_write_error env0 = None" by (simp add: env0_def)
  have b: "unpadded (assembly_key dialog1)" "unpadded (gemini_key dialog1)"
    "unpadded (dir_entry dialog1)" "unpadded (prompt_text dialog1)"
    by (simp_all add: unpadded_def dialog1_def dialog0_def is_space_def)
  have c: "model_index dialog1 < length (model_combo dialog1)"
    "currentText dialog1 = ''gemini-1.5-flash''"
    "assembly_key dialog1 = ''speech-key''" "gemini_key dialog1 = ''llm-key''"
    "dir_entry dialog1 = ''/out''" "prompt_text dialog1 = ''Clean: {transcript}''"
    by (simp_all add: dialog1_def dialog0_def currentText_def)
  from settings_reload_stripped [OF a, of dialog1 app0 env0 dialog1]
  show ?thesis using a b c by auto
qed

text \<open>
  Claim C5 as stated fails: a speech key entered with a space in front is saved and
  reloaded without it, and the saved JSON object has no \<^verbatim>\<open>CUSTOM_VOCABULARY\<close> key at
  all.
\<close>

theorem padded_key_not_reloaded_identically:
  "assembly_key dialog0 = '' speech-key'' \<and>
   fst (SettingsDialog_save_settings env0 dialog0 app0) \<and>
   config (snd (SettingsDialog_save_settings env0 dialog0 app0)) = Json (saved_settings dialog0) \<and>
   CUSTOM_VOCABULARY (saved_settings dialog0) = None \<and>
   map_sum id assembly_api_key
     (load_settings env0 (snd (SettingsDialog_save_settings env0 dialog0 app0)))
     = Inr ''speech-key''"
proof -
  have a: "config_write_error env0 = None" by (simp add: env0_def)
  have s: "strip (assembly_key dialog0) = ''speech-key''"
    by (simp add: dialog0_def strip_def is_space_def)
  from save_then_load(3) [OF a, of env0 dialog0 app0]
  obtain s2 where "load_settings env0 (snd (SettingsDialog_save_settings env0 dialog0 app0)) = Inr s2"
    "assembly_api_key s2 = strip (assembly_key dialog0)"
    by blast
  then have "map_sum id assembly_api_key
     (load_settings env0 (snd (SettingsDialog_save_settings env0 dialog0 app0)))
     = Inr ''speech-key''"
    by (simp add: s)
  moreover have "fst (SettingsDialog_save_settings env0 dialog0 app0)"
    using save_then_load(1) [OF a, of dialog0 app0] by (metis fst_conv)
  moreover have "assembly_key dialog0 = '' speech-key''"
    by (simp add: dialog0_def)
  moreover have "CUSTOM_VOCABULARY (saved_settings dialog0) = None"
    by (simp add: saved_settings_def)
  ultimately show ?thesis
    using save_then_load(2) [OF a, of dialog0 app0] by simp
qed

end
